theory Spec2Isabelle
  imports Complex_Main
begin

section \<open>Geometry and surfaces (the pygame values the code works on)\<close>

text \<open>
  Python floats (the components of a \<open>Vector2\<close>, the speeds, the clock) are modelled as
  rationals: every float constant of the code (\<open>0.15\<close>, \<open>0.8\<close>, \<open>0.18\<close>, \<open>3.5\<close>) is
  read as the decimal fraction it is written as, and arithmetic is exact.
\<close>

type_synonym pyfloat = rat

text \<open>A \<open>pygame.Rect\<close>: integer position and size.  The edges are derived (\<open>top_edge\<close> is
  the attribute \<open>top\<close>).\<close>

record Rect =
  x :: int
  y :: int
  w :: int
  h :: int

definition left :: "Rect \<Rightarrow> int" where
  "left r = x r"

definition right :: "Rect \<Rightarrow> int" where
  "right r = x r + w r"

definition top_edge :: "Rect \<Rightarrow> int" where
  "top_edge r = y r"

definition bottom :: "Rect \<Rightarrow> int" where
  "bottom r = y r + h r"

definition centerx :: "Rect \<Rightarrow> int" where
  "centerx r = x r + w r div 2"

text \<open>Assigning to a derived edge moves the rectangle and keeps its size.\<close>

definition set_left :: "int \<Rightarrow> Rect \<Rightarrow> Rect" where
  "set_left v r = r\<lparr>x := v\<rparr>"

definition set_right :: "int \<Rightarrow> Rect \<Rightarrow> Rect" where
  "set_right v r = r\<lparr>x := v - w r\<rparr>"

definition set_top :: "int \<Rightarrow> Rect \<Rightarrow> Rect" where
  "set_top v r = r\<lparr>y := v\<rparr>"

definition set_bottom :: "int \<Rightarrow> Rect \<Rightarrow> Rect" where
  "set_bottom v r = r\<lparr>y := v - h r\<rparr>"

text \<open>
  \<open>Rect.colliderect\<close>: a rectangle of zero width or height collides with nothing;
  otherwise the two must overlap strictly on both axes (touching edges do not collide).
\<close>

definition colliderect :: "Rect \<Rightarrow> Rect \<Rightarrow> bool" where
  "colliderect a b =
     (if w a = 0 \<or> h a = 0 \<or> w b = 0 \<or> h b = 0 then False
      else min (x a) (x a + w a) < max (x b) (x b + w b)
         \<and> min (y a) (y a + h a) < max (y b) (y b + h b)
         \<and> max (x a) (x a + w a) > min (x b) (x b + w b)
         \<and> max (y a) (y a + h a) > min (y b) (y b + h b))"

text \<open>
  A rectangle stores C integers: assigning a float to \<open>rect.x\<close> or \<open>rect.y\<close> drops the
  fractional part (truncation toward zero).
\<close>

definition int_of_float :: "pyfloat \<Rightarrow> int" where
  "int_of_float q = (if 0 \<le> q then \<lfloor>q\<rfloor> else \<lceil>q\<rceil>)"

text \<open>
  A \<open>pygame.Surface\<close>, as far as the simulation reads it: its size, and whether it is the
  blank fully transparent surface \<open>Surface((64, 64), pygame.SRCALPHA)\<close>.
\<close>

record Surface =
  surf_w :: int
  surf_h :: int
  blank :: bool

text \<open>\<open>image.get_rect(topleft=(px, py))\<close> and the other anchors the code uses.\<close>

definition get_rect_topleft :: "Surface \<Rightarrow> int \<times> int \<Rightarrow> Rect" where
  "get_rect_topleft s p = \<lparr>x = fst p, y = snd p, w = surf_w s, h = surf_h s\<rparr>"

definition get_rect_topright :: "Surface \<Rightarrow> int \<times> int \<Rightarrow> Rect" where
  "get_rect_topright s p = \<lparr>x = fst p - surf_w s, y = snd p, w = surf_w s, h = surf_h s\<rparr>"

definition get_rect_bottomleft :: "Surface \<Rightarrow> int \<times> int \<Rightarrow> Rect" where
  "get_rect_bottomleft s p = \<lparr>x = fst p, y = snd p - surf_h s, w = surf_w s, h = surf_h s\<rparr>"

definition get_rect_bottomright :: "Surface \<Rightarrow> int \<times> int \<Rightarrow> Rect" where
  "get_rect_bottomright s p =
     \<lparr>x = fst p - surf_w s, y = snd p - surf_h s, w = surf_w s, h = surf_h s\<rparr>"

definition get_rect_midtop :: "Surface \<Rightarrow> int \<times> int \<Rightarrow> Rect" where
  "get_rect_midtop s p =
     \<lparr>x = fst p - surf_w s div 2, y = snd p, w = surf_w s, h = surf_h s\<rparr>"

definition get_rect_midbottom :: "Surface \<Rightarrow> int \<times> int \<Rightarrow> Rect" where
  "get_rect_midbottom s p =
     \<lparr>x = fst p - surf_w s div 2, y = snd p - surf_h s, w = surf_w s, h = surf_h s\<rparr>"

text \<open>\<open>flip_image\<close> mirrors the picture and keeps its size.\<close>

definition flip_image :: "Surface \<Rightarrow> Surface" where
  "flip_image s = s"

text \<open>A \<open>Vector2\<close> (the fields \<open>x\<close> and \<open>y\<close> of the source).\<close>

record Vector2 =
  vx :: pyfloat
  vy :: pyfloat

section \<open>Exceptions as values\<close>

text \<open>
  A call that may raise returns a sum: \<open>Inl\<close> the exception, \<open>Inr\<close> the result.
  \<open>and_then r f\<close> continues with \<open>f\<close> when \<open>r\<close> returned and propagates the exception
  otherwise.
\<close>

datatype exception =
    GameOver
  | ValueError string
  | KeyError string
  | ValidationError string
  | AttributeError
  | IndexError
  | SystemExit int

definition and_then :: "'e + 'a \<Rightarrow> ('a \<Rightarrow> 'e + 'b) \<Rightarrow> 'e + 'b" where
  "and_then r f = (case r of Inl e \<Rightarrow> Inl e | Inr v \<Rightarrow> f v)"

section \<open>enums.py\<close>

datatype PlayerState = IDLE | RUN | JUMP | FALL

datatype Orientation = Orientation_RIGHT | Orientation_LEFT

datatype Collisions = TOP | BOTTOM | LEFT | RIGHT

datatype CellType = EMPTY | WALL | PLAYER | ENEMY | COIN | DEATH_BOX

definition PLAYER_ANIMATION :: pyfloat where "PLAYER_ANIMATION = 15 / 100"
definition DUST_ANIMATION :: pyfloat where "DUST_ANIMATION = 15 / 100"
definition PLAYER_MOVEMENT :: int where "PLAYER_MOVEMENT = 8"
definition PLAYER_JUMP :: int where "PLAYER_JUMP = - 16"
definition GRAVITY :: pyfloat where "GRAVITY = 8 / 10"
definition SHOOT_DELAY :: pyfloat where "SHOOT_DELAY = 18 / 100"
definition ENEMY_MOVEMENT :: pyfloat where "ENEMY_MOVEMENT = 35 / 10"
definition ENEMY_ANIMATION :: pyfloat where "ENEMY_ANIMATION = 15 / 100"
definition BULLET_SPEED :: int where "BULLET_SPEED = 7"

text \<open>\<open>CellType(cell)\<close>: the member whose value is the character, or ValueError.\<close>

definition CellType_of :: "char \<Rightarrow> CellType option" where
  "CellType_of c =
     (if c = CHR '' '' then Some EMPTY
      else if c = CHR ''X'' then Some WALL
      else if c = CHR ''P'' then Some PLAYER
      else if c = CHR ''E'' then Some ENEMY
      else if c = CHR ''C'' then Some COIN
      else if c = CHR ''D'' then Some DEATH_BOX
      else None)"

section \<open>save.py\<close>

record Save =
  name :: string
  score :: int
  level :: int
  map_rows :: "string list"
  created_at :: string

text \<open>The JSON-shaped values a save is written as; a dict keeps its keys in order.\<close>

datatype json = JString string | JInt int | JList "json list"

type_synonym json_dict = "(string \<times> json) list"

definition to_json :: "Save \<Rightarrow> json_dict" where
  "to_json s =
     [(''name'', JString (name s)),
      (''score'', JInt (score s)),
      (''level'', JInt (level s)),
      (''map'', JList (map JString (map_rows s))),
      (''created_at'', JString (created_at s))]"

text \<open>\<open>json_data[key]\<close> raises KeyError on a missing key.\<close>

definition getitem :: "json_dict \<Rightarrow> string \<Rightarrow> exception + json" where
  "getitem d k = (case map_of d k of None \<Rightarrow> Inl (KeyError k) | Some v \<Rightarrow> Inr v)"

text \<open>
  The field validators of the pydantic model, for values that already have the declared
  type (\<open>str\<close>, \<open>int\<close>, \<open>list[str]\<close>); any other value is refused here (pydantic's
  coercions of other types are not modelled).
\<close>

definition validate_str :: "string \<Rightarrow> json \<Rightarrow> exception + string" where
  "validate_str k v = (case v of JString s \<Rightarrow> Inr s | _ \<Rightarrow> Inl (ValidationError k))"

definition validate_int :: "string \<Rightarrow> json \<Rightarrow> exception + int" where
  "validate_int k v = (case v of JInt i \<Rightarrow> Inr i | _ \<Rightarrow> Inl (ValidationError k))"

fun validate_str_list :: "string \<Rightarrow> json list \<Rightarrow> exception + string list" where
  "validate_str_list k [] = Inr []"
| "validate_str_list k (v # vs) =
     and_then (validate_str k v) (\<lambda>s. and_then (validate_str_list k vs) (\<lambda>ss. Inr (s # ss)))"

definition validate_map :: "string \<Rightarrow> json \<Rightarrow> exception + string list" where
  "validate_map k v = (case v of JList vs \<Rightarrow> validate_str_list k vs | _ \<Rightarrow> Inl (ValidationError k))"

definition from_json :: "json_dict \<Rightarrow> exception + Save" where
  "from_json d =
     and_then (getitem d ''name'') (\<lambda>jn.
     and_then (getitem d ''score'') (\<lambda>js.
     and_then (getitem d ''level'') (\<lambda>jl.
     and_then (getitem d ''map'') (\<lambda>jm.
     and_then (getitem d ''created_at'') (\<lambda>jc.
     and_then (validate_str ''name'' jn) (\<lambda>n.
     and_then (validate_int ''score'' js) (\<lambda>sc.
     and_then (validate_int ''level'' jl) (\<lambda>lv.
     and_then (validate_map ''map'' jm) (\<lambda>m.
     and_then (validate_str ''created_at'' jc) (\<lambda>c.
     Inr \<lparr>name = n, score = sc, level = lv, map_rows = m, created_at = c\<rparr>))))))))))"

section \<open>Sprites: tiles.py, bullets.py, character.py\<close>

text \<open>What every \<open>pygame.sprite.Sprite\<close> of the game carries: its image and its rectangle.\<close>

record Sprite =
  image_s :: Surface
  rect :: Rect

text \<open>\<open>Square\<close>, a game tile, with the three capability flags of its constructor.  Every
  sprite of the tile group is a \<open>Square\<close>, so the \<open>hasattr\<close> tests of level.py hold.\<close>

record Square = Sprite +
  collides :: bool
  collectable :: bool
  kills :: bool

text \<open>
  \<open>Bullet\<close>.  \<open>spawn\<close> is the dict \<open>{"x": x, "y": y}\<close>.  \<open>in_group\<close> records whether the
  sprite is a member of a sprite group: \<open>Group.add\<close> sets it and \<open>Sprite.kill\<close>, which
  removes the sprite from every group, clears it; a group draws its members only.
\<close>

record Bullet = Sprite +
  spawn :: "int \<times> int"
  bullet_orientation :: Orientation
  bullet_speed :: int
  is_alive :: bool
  in_group :: bool

definition Bullet_init :: "int \<Rightarrow> int \<Rightarrow> Surface \<Rightarrow> Orientation \<Rightarrow> int \<Rightarrow> Bullet" where
  "Bullet_init px py img ori spd =
     \<lparr>image_s = img,
      rect = (get_rect_topleft img (0, 0))\<lparr>x := px, y := py\<rparr>,
      spawn = (px, py),
      bullet_orientation = ori,
      bullet_speed = spd,
      is_alive = True,
      in_group = False\<rparr>"

definition Bullet_update :: "Bullet \<Rightarrow> Bullet" where
  "Bullet_update b =
     (let b1 = (if bullet_orientation b = Orientation_LEFT
                then b\<lparr>rect := (rect b)\<lparr>x := x (rect b) - bullet_speed b\<rparr>\<rparr>
                else b\<lparr>rect := (rect b)\<lparr>x := x (rect b) + bullet_speed b\<rparr>\<rparr>)
      in if \<bar>x (rect b1) - fst (spawn b1)\<bar> > 550
         then b1\<lparr>in_group := False, is_alive := False\<rparr>
         else b1)"

text \<open>
  \<open>Character\<close>.  \<open>orientation\<close> is the attribute \<open>_orientation\<close>; \<open>cls\<close> is the class of
  the object, which \<open>type(character) is Enemy\<close> reads.
\<close>

datatype CharacterClass = Player_class | Enemy_class

record Character = Sprite +
  cls :: CharacterClass
  speed :: pyfloat
  orientation :: Orientation
  collisions :: "Collisions set"
  direction :: Vector2

definition Character_init ::
  "CharacterClass \<Rightarrow> int \<Rightarrow> int \<Rightarrow> Surface \<Rightarrow> pyfloat \<Rightarrow> Character" where
  "Character_init c px py img spd =
     \<lparr>image_s = img,
      rect = get_rect_topleft img (px, py),
      cls = c,
      speed = spd,
      orientation = Orientation_RIGHT,
      collisions = {},
      direction = \<lparr>vx = 0, vy = 0\<rparr>\<rparr>"

text \<open>
  \<open>Character.handle_collisions\<close>: the rectangle is rebuilt from the current image, anchored
  at the first matching corner or edge of the old rectangle.
\<close>

definition handle_collisions :: "'a Character_scheme \<Rightarrow> 'a Character_scheme" where
  "handle_collisions c =
     (let r = rect c; img = image_s c in
      if {BOTTOM, RIGHT} \<subseteq> collisions c
        then c\<lparr>rect := get_rect_bottomright img (right r, bottom r)\<rparr>
      else if {BOTTOM, LEFT} \<subseteq> collisions c
        then c\<lparr>rect := get_rect_bottomleft img (left r, bottom r)\<rparr>
      else if {BOTTOM} \<subseteq> collisions c
        then c\<lparr>rect := get_rect_midbottom img (centerx r, bottom r)\<rparr>
      else if {TOP, RIGHT} \<subseteq> collisions c
        then c\<lparr>rect := get_rect_topright img (right r, top_edge r)\<rparr>
      else if {TOP, LEFT} \<subseteq> collisions c
        then c\<lparr>rect := get_rect_topleft img (left r, top_edge r)\<rparr>
      else if {TOP} \<subseteq> collisions c
        then c\<lparr>rect := get_rect_midtop img (centerx r, top_edge r)\<rparr>
      else c)"

text \<open>
  \<open>Player\<close> (a \<open>Character\<close> and a \<open>Shooter\<close>).  \<open>animations\<close> is the dict from player state
  to the frames loaded for it; \<open>bullets\<close> and \<open>last_shot\<close> are the \<open>Shooter\<close> attributes.
\<close>

record Player = Character +
  frame_index :: pyfloat
  dust_frame_index :: pyfloat
  animations :: "PlayerState \<Rightarrow> Surface list"
  dust_run_particles :: "Surface list"
  bullet_image :: Surface
  status :: PlayerState
  player_score :: int
  bullets :: "Bullet list"
  last_shot :: pyfloat

text \<open>The properties \<open>Player.x\<close> and \<open>Player.y\<close>: the centre of the rectangle.\<close>

definition Player_x :: "Player \<Rightarrow> int" where
  "Player_x p = x (rect p) + w (rect p) div 2"

definition Player_y :: "Player \<Rightarrow> int" where
  "Player_y p = y (rect p) + h (rect p) div 2"

text \<open>
  \<open>Shooter.shoot\<close>.  The clock is read twice: \<open>now\<close> is the reading compared with the
  cooldown, \<open>now'\<close> the later reading stored in \<open>last_shot\<close>.
\<close>

definition shoot :: "pyfloat \<Rightarrow> pyfloat \<Rightarrow> Surface \<Rightarrow> int \<Rightarrow> Player \<Rightarrow> Player" where
  "shoot now now' img spd p =
     (if now - last_shot p > SHOOT_DELAY
      then p\<lparr>bullets := bullets p @ [Bullet_init (Player_x p) (Player_y p) img (orientation p) spd],
             last_shot := now'\<rparr>
      else p)"

text \<open>
  \<open>Shooter.display_bullets\<close>: every bullet of the list is put into a fresh single-sprite
  group, updated through it and drawn through it.  The result is the list after the call
  and the bullets that were drawn; the list itself is never shortened.
\<close>

definition display_bullet :: "Bullet \<Rightarrow> Bullet" where
  "display_bullet b = Bullet_update (b\<lparr>in_group := True\<rparr>)"

definition display_bullets :: "Bullet list \<Rightarrow> Bullet list \<times> Bullet list" where
  "display_bullets bs =
     (let bs' = map display_bullet bs in (bs', filter in_group bs'))"

definition update_status :: "Player \<Rightarrow> Player" where
  "update_status p =
     (if vy (direction p) < 0 then p\<lparr>status := JUMP\<rparr>
      else if vy (direction p) > 1 then p\<lparr>status := FALL\<rparr>
      else if vx (direction p) \<noteq> 0 then p\<lparr>status := RUN\<rparr>
      else p\<lparr>status := IDLE\<rparr>)"

text \<open>\<open>Bullet\<close> lists after \<open>n\<close> frames, each of which calls \<open>display_bullets\<close> once.\<close>

primrec bullets_after :: "nat \<Rightarrow> Bullet list \<Rightarrow> Bullet list" where
  "bullets_after 0 bs = bs"
| "bullets_after (Suc n) bs = fst (display_bullets (bullets_after n bs))"

text \<open>\<open>Enemy\<close>: a \<open>Character\<close> with its own frame counter and frames.\<close>

record Enemy = Character +
  enemy_frame_index :: pyfloat
  enemy_animations :: "Surface list"

text \<open>
  The pictures the game loads from files, which the repository's sources do not fix: the
  tiles cut from the two tile sheets (\<open>map_tiles.square\<close>, \<open>map_tiles.coin\<close>,
  \<open>bullet_tiles.bullet\<close>), the two start images and the animation folders.
\<close>

record Assets =
  map_square :: Surface
  map_coin :: Surface
  bullet_tile :: Surface
  player_idle_image :: Surface
  enemy_start_image :: Surface
  character_animations :: "PlayerState \<Rightarrow> Surface list"
  dust_run_animation :: "Surface list"
  enemy_folder :: "Surface list"

text \<open>
  The constructors.  \<open>Character.__init__\<close> passes on to \<open>Shooter.__init__\<close> for a player,
  which sets \<open>bullets\<close> to the empty list and \<open>last_shot\<close> to 0.  The attributes a
  \<open>Player\<close> adds are, in the order of the record: \<open>frame_index\<close>, \<open>dust_frame_index\<close>,
  \<open>animations\<close>, \<open>dust_run_particles\<close>, \<open>bullet_image\<close>, \<open>status\<close>, \<open>score\<close>,
  \<open>bullets\<close>, \<open>last_shot\<close>; those an \<open>Enemy\<close> adds are \<open>frame_index\<close> and
  \<open>animations\<close>.  What the constructors print is not recorded.
\<close>

definition Player_init :: "Assets \<Rightarrow> int \<Rightarrow> int \<Rightarrow> Player" where
  "Player_init A px py =
     Character.extend
       (Character_init Player_class px py (player_idle_image A) (of_int PLAYER_MOVEMENT))
       (Player.fields 0 0 (character_animations A) (dust_run_animation A) (bullet_tile A)
          IDLE 0 [] 0)"

definition Enemy_init :: "Assets \<Rightarrow> int \<Rightarrow> int \<Rightarrow> Enemy" where
  "Enemy_init A px py =
     Character.extend
       (Character_init Enemy_class px py (enemy_start_image A) ENEMY_MOVEMENT)
       (Enemy.fields 0 (enemy_folder A))"

section \<open>settings.py and level.py\<close>

definition tile_size :: int where "tile_size = 64"
definition screen_width :: int where "screen_width = 1200"

text \<open>\<open>Square(surface, collides, collectable, kills).scaled(sx, sy).with_rect(px, py)\<close>.\<close>

definition scaled :: "int \<Rightarrow> int \<Rightarrow> Surface \<Rightarrow> Surface" where
  "scaled sx sy s = s\<lparr>surf_w := surf_w s * sx, surf_h := surf_h s * sy\<rparr>"

definition Square_at ::
  "Surface \<Rightarrow> bool \<Rightarrow> bool \<Rightarrow> bool \<Rightarrow> int \<Rightarrow> int \<Rightarrow> int \<Rightarrow> int \<Rightarrow> Square" where
  "Square_at s c_collides c_collectable c_kills sx sy px py =
     \<lparr>image_s = scaled sx sy s,
      rect = get_rect_topleft (scaled sx sy s) (px, py),
      collides = c_collides,
      collectable = c_collectable,
      kills = c_kills\<rparr>"

text \<open>\<open>Surface((64, 64), pygame.SRCALPHA)\<close>: a blank, fully transparent picture.\<close>

definition blank_surface :: Surface where
  "blank_surface = \<lparr>surf_w = 64, surf_h = 64, blank = True\<rparr>"

text \<open>The four kinds of tile that \<open>spawn_sprites\<close> builds, with the defaults of \<open>Square\<close>
  (\<open>collides=True\<close>, \<open>collectable=False\<close>, \<open>kills=False\<close>) written out.\<close>

definition wall_tile :: "Assets \<Rightarrow> int \<Rightarrow> int \<Rightarrow> Square" where
  "wall_tile A px py = Square_at (map_square A) True False False 4 4 px py"

definition coin_tile :: "Assets \<Rightarrow> int \<Rightarrow> int \<Rightarrow> Square" where
  "coin_tile A px py = Square_at (map_coin A) False True False 2 2 (px + 16) (py + 16)"

definition death_tile :: "int \<Rightarrow> int \<Rightarrow> Square" where
  "death_tile px py = Square_at blank_surface True False True 4 4 px py"

definition enemy_tile :: "int \<Rightarrow> int \<Rightarrow> Square" where
  "enemy_tile px py = Square_at blank_surface True False False 4 4 px py"

text \<open>
  A \<open>GroupSingle\<close> holds at most one sprite.  The state of the two loops of
  \<open>spawn_sprites\<close>: the tile group, \<open>player_sprite\<close> and \<open>self.enemies\<close>.
\<close>

type_synonym PlayerGroup = "Player option"
type_synonym EnemyGroup = "Enemy option"

record spawn_state =
  sp_tiles :: "Square list"
  player_sprite :: "Player option"
  sp_enemies :: "EnemyGroup list"

text \<open>The body of the inner loop, for the cell \<open>cell\<close> at column \<open>col_index\<close> of row
  \<open>row_index\<close>.  \<open>CellType(cell)\<close> raises ValueError for a character that is no cell code.\<close>

definition spawn_cell :: "Assets \<Rightarrow> nat \<Rightarrow> nat \<Rightarrow> char \<Rightarrow> spawn_state \<Rightarrow> exception + spawn_state" where
  "spawn_cell A row_index col_index cell st =
     (let px = int col_index * tile_size; py = int row_index * tile_size in
      case CellType_of cell of
        None \<Rightarrow> Inl (ValueError ''not a valid CellType'')
      | Some WALL \<Rightarrow> Inr (st\<lparr>sp_tiles := sp_tiles st @ [wall_tile A px py]\<rparr>)
      | Some PLAYER \<Rightarrow> Inr (st\<lparr>player_sprite := Some (Player_init A px py)\<rparr>)
      | Some COIN \<Rightarrow> Inr (st\<lparr>sp_tiles := sp_tiles st @ [coin_tile A px py]\<rparr>)
      | Some DEATH_BOX \<Rightarrow> Inr (st\<lparr>sp_tiles := sp_tiles st @ [death_tile px py]\<rparr>)
      | Some ENEMY \<Rightarrow>
          Inr (st\<lparr>sp_enemies := sp_enemies st @ [Some (Enemy_init A px (py - 64))],
                  sp_tiles := sp_tiles st @ [enemy_tile px py]\<rparr>)
      | Some EMPTY \<Rightarrow> Inr st)"

fun spawn_row :: "Assets \<Rightarrow> nat \<Rightarrow> nat \<Rightarrow> string \<Rightarrow> spawn_state \<Rightarrow> exception + spawn_state" where
  "spawn_row A row_index col_index [] st = Inr st"
| "spawn_row A row_index col_index (cell # cells) st =
     and_then (spawn_cell A row_index col_index cell st)
       (spawn_row A row_index (Suc col_index) cells)"

fun spawn_rows :: "Assets \<Rightarrow> nat \<Rightarrow> string list \<Rightarrow> spawn_state \<Rightarrow> exception + spawn_state" where
  "spawn_rows A row_index [] st = Inr st"
| "spawn_rows A row_index (row # rows) st =
     and_then (spawn_row A row_index 0 row st) (spawn_rows A (Suc row_index) rows)"

text \<open>
  \<open>Level.spawn_sprites\<close>.  \<open>es\<close> is \<open>self.enemies\<close> before the call; the result is the pair
  the method returns together with \<open>self.enemies\<close> after it.  A \<open>Player\<close> object is
  truthy, so \<open>not player_sprite\<close> holds exactly when no player was created.
\<close>

definition spawn_sprites ::
  "Assets \<Rightarrow> EnemyGroup list \<Rightarrow> string list
     \<Rightarrow> exception + (Square list \<times> PlayerGroup \<times> EnemyGroup list)" where
  "spawn_sprites A es layout =
     and_then (spawn_rows A 0 layout \<lparr>sp_tiles = [], player_sprite = None, sp_enemies = es\<rparr>)
       (\<lambda>st. case player_sprite st of
                None \<Rightarrow> Inl (ValueError ''No player found'')
              | Some p \<Rightarrow> Inr (sp_tiles st, Some p, sp_enemies st))"

section \<open>The level: state, construction and the per-frame methods\<close>

text \<open>
  A method that mutates an object and may raise returns \<open>Inl (e, s)\<close> when it raised \<open>e\<close>
  and left the object in state \<open>s\<close>, and \<open>Inr s\<close> when it returned with the object in
  state \<open>s\<close>.
\<close>

type_synonym 's outcome = "(exception \<times> 's) + 's"

text \<open>\<open>xs[i]\<close> on a Python list: a negative index counts from the end; out of range raises.\<close>

definition list_getitem :: "'a list \<Rightarrow> int \<Rightarrow> 'a option" where
  "list_getitem xs i =
     (if 0 \<le> i \<and> i < int (length xs) then Some (xs ! nat i)
      else if - int (length xs) \<le> i \<and> i < 0 then Some (xs ! nat (int (length xs) + i))
      else None)"

subsection \<open>Player.update\<close>

text \<open>The keys the game reads from \<open>pygame.key.get_pressed()\<close>.\<close>

record Keys =
  K_RIGHT :: bool
  K_LEFT :: bool
  K_UP :: bool
  K_SPACE :: bool
  K_ESCAPE :: bool
  K_s :: bool

text \<open>The setter of \<open>Player.orientation\<close>: it also reloads the image and rebuilds the
  rectangle at its top left corner.\<close>

definition set_orientation :: "Orientation \<Rightarrow> Player \<Rightarrow> Player outcome" where
  "set_orientation v p =
     (let p1 = p\<lparr>orientation := v\<rparr> in
      case list_getitem (animations p1 (status p1)) (int_of_float (frame_index p1)) of
        None \<Rightarrow> Inl (IndexError, p1)
      | Some img \<Rightarrow>
          Inr (p1\<lparr>image_s := img, rect := get_rect_topleft img (x (rect p1), y (rect p1))\<rparr>))"

definition jump :: "Player \<Rightarrow> Player" where
  "jump p = p\<lparr>direction := (direction p)\<lparr>vy := of_int PLAYER_JUMP\<rparr>\<rparr>"

text \<open>
  \<open>Player.handle_key_presses\<close>.  \<open>now\<close> and \<open>now'\<close> are the two clock readings a call of
  \<open>shoot\<close> makes.  The jump particles the method asks the level for are display only and
  are left out, as are all dust particles and every draw call below.
\<close>

definition handle_key_presses :: "Keys \<Rightarrow> pyfloat \<Rightarrow> pyfloat \<Rightarrow> Player \<Rightarrow> Player outcome" where
  "handle_key_presses ks now now' p =
     and_then
       (if K_RIGHT ks
          then set_orientation Orientation_RIGHT (p\<lparr>direction := (direction p)\<lparr>vx := 1\<rparr>\<rparr>)
        else if K_LEFT ks
          then set_orientation Orientation_LEFT (p\<lparr>direction := (direction p)\<lparr>vx := - 1\<rparr>\<rparr>)
        else Inr (p\<lparr>direction := (direction p)\<lparr>vx := 0\<rparr>\<rparr>))
       (\<lambda>p1.
          let p2 = (if K_UP ks \<and> BOTTOM \<in> collisions p1 then jump p1 else p1);
              p3 = (if K_SPACE ks then shoot now now' (bullet_image p2) BULLET_SPEED p2 else p2)
          in Inr p3)"

definition animate :: "Player \<Rightarrow> Player outcome" where
  "animate p =
     (let animation = animations p (status p);
          p1 = p\<lparr>frame_index := frame_index p + PLAYER_ANIMATION\<rparr>;
          p2 = (if frame_index p1 \<ge> of_nat (length animation) then p1\<lparr>frame_index := 0\<rparr> else p1)
      in case list_getitem animation (int_of_float (frame_index p2)) of
           None \<Rightarrow> Inl (IndexError, p2)
         | Some img \<Rightarrow>
             Inr (handle_collisions
                    (if orientation p2 = Orientation_RIGHT then p2\<lparr>image_s := img\<rparr>
                     else p2\<lparr>image_s := flip_image img\<rparr>)))"

definition run_dust_animation :: "Player \<Rightarrow> Player outcome" where
  "run_dust_animation p =
     (if status p = RUN \<and> BOTTOM \<in> collisions p then
        (let p1 = p\<lparr>dust_frame_index := dust_frame_index p + DUST_ANIMATION\<rparr>;
             p2 = (if dust_frame_index p1 \<ge> of_nat (length (dust_run_particles p1))
                   then p1\<lparr>dust_frame_index := 0\<rparr> else p1)
         in case list_getitem (dust_run_particles p2) (int_of_float (dust_frame_index p2)) of
              None \<Rightarrow> Inl (IndexError, p2)
            | Some dust_particle \<Rightarrow> Inr p2)
      else Inr p)"

definition Player_update :: "Keys \<Rightarrow> pyfloat \<Rightarrow> pyfloat \<Rightarrow> Player \<Rightarrow> Player outcome" where
  "Player_update ks now now' p =
     and_then (handle_key_presses ks now now' p) (\<lambda>p1.
     and_then (animate (update_status p1)) (\<lambda>p2.
     and_then (run_dust_animation p2) (\<lambda>p3.
     Inr (p3\<lparr>bullets := fst (display_bullets (bullets p3))\<rparr>))))"

text \<open>\<open>Player.apply_gravity\<close>.\<close>

definition apply_gravity :: "Player \<Rightarrow> Player" where
  "apply_gravity p =
     (let p1 = p\<lparr>direction := (direction p)\<lparr>vy := vy (direction p) + GRAVITY\<rparr>\<rparr>
      in p1\<lparr>rect := (rect p1)\<lparr>y := int_of_float (of_int (y (rect p1)) + vy (direction p1))\<rparr>\<rparr>)"

subsection \<open>Enemy.update\<close>

definition Enemy_update :: "Enemy \<Rightarrow> Enemy outcome" where
  "Enemy_update e =
     (let e1 = e\<lparr>enemy_frame_index := enemy_frame_index e + ENEMY_ANIMATION\<rparr>;
          e2 = (if enemy_frame_index e1 \<ge> of_nat (length (enemy_animations e1))
                then e1\<lparr>enemy_frame_index := 0\<rparr> else e1)
      in case list_getitem (enemy_animations e2) (int_of_float (enemy_frame_index e2)) of
           None \<Rightarrow> Inl (IndexError, e2)
         | Some img \<Rightarrow>
             Inr (handle_collisions
                    (if orientation e2 = Orientation_RIGHT then e2\<lparr>image_s := img\<rparr>
                     else e2\<lparr>image_s := flip_image img\<rparr>)))"

subsection \<open>Level\<close>

text \<open>
  The attributes of a \<open>Level\<close> that the simulation reads and writes.  \<open>printed\<close> is what the
  per-frame methods have written to standard output.
\<close>

record Level =
  level_data :: "string list"
  enemies :: "EnemyGroup list"
  tiles :: "Square list"
  player :: PlayerGroup
  world_shift :: int
  current_x :: int
  landed :: bool
  printed :: "string list"

definition Level_init :: "Assets \<Rightarrow> string list \<Rightarrow> exception + Level" where
  "Level_init A layout =
     and_then (spawn_sprites A [] layout)
       (\<lambda>(ts, pg, es).
          Inr \<lparr>level_data = layout, enemies = es, tiles = ts, player = pg,
               world_shift = 0, current_x = 0, landed = False, printed = []\<rparr>)"

text \<open>\<open>Square.update(x_shift)\<close>, which \<open>self.tiles.update(self.world_shift)\<close> calls on every tile.\<close>

definition Square_update :: "int \<Rightarrow> Square \<Rightarrow> Square" where
  "Square_update x_shift t = t\<lparr>rect := (rect t)\<lparr>x := x (rect t) + x_shift\<rparr>\<rparr>"

text \<open>\<open>Level.handle_horizontal_movement\<close>; with an empty player group \<open>player\<close> is None and
  reading \<open>player.rect\<close> raises AttributeError.\<close>

definition handle_horizontal_movement :: "Level \<Rightarrow> Level outcome" where
  "handle_horizontal_movement L =
     (case player L of
        None \<Rightarrow> Inl (AttributeError, L)
      | Some p \<Rightarrow>
          (let player_x = centerx (rect p); direction_x = vx (direction p) in
           if of_int player_x < (of_int screen_width / 4 :: pyfloat) \<and> direction_x < 0
             then Inr (L\<lparr>world_shift := PLAYER_MOVEMENT * 2, player := Some (p\<lparr>speed := 0\<rparr>)\<rparr>)
           else if of_int player_x > (of_int screen_width - of_int screen_width / 4 :: pyfloat)
                   \<and> direction_x > 0
             then Inr (L\<lparr>world_shift := - PLAYER_MOVEMENT * 2, player := Some (p\<lparr>speed := 0\<rparr>)\<rparr>)
           else Inr (L\<lparr>world_shift := 0, player := Some (p\<lparr>speed := 8\<rparr>)\<rparr>)))"

subsection \<open>Level.horizontal_movement_collision\<close>

text \<open>The first statement: \<open>character.rect.x += character.direction.x * character.speed\<close>.\<close>

definition advance_x :: "'a Character_scheme \<Rightarrow> 'a Character_scheme" where
  "advance_x c =
     c\<lparr>rect := (rect c)\<lparr>x := int_of_float (of_int (x (rect c)) + vx (direction c) * speed c)\<rparr>\<rparr>"

text \<open>The first part of the loop body, for enemies only; it runs for every sprite of the
  tile group, before the sprite's \<open>collides\<close> flag is looked at.\<close>

definition enemy_turn :: "Square \<Rightarrow> 'a Character_scheme \<Rightarrow> 'a Character_scheme" where
  "enemy_turn sprite c =
     (if cls c = Enemy_class
         \<and> vx (direction c) > 0
         \<and> left (rect sprite) < right (rect c) \<and> right (rect c) < right (rect sprite)
      then c\<lparr>direction := (direction c)\<lparr>vx := vx (direction c) * (- 1)\<rparr>, speed := ENEMY_MOVEMENT\<rparr>
      else c)"


text \<open>
  The identity test \<open>character is self.player\<close>.  \<open>self.player\<close> is the \<open>PlayerGroup\<close> that
  \<open>spawn_sprites\<close> returned, and \<open>character\<close> is a sprite (\<open>run\<close> passes
  \<open>self.player.sprite\<close> and each \<open>enemy.sprite\<close>).  A group is never the sprite it holds, so
  the test is false for every character.
\<close>

definition is_player_group :: "'a Character_scheme \<Rightarrow> PlayerGroup \<Rightarrow> bool" where
  "is_player_group character player_group = False"

text \<open>The second part of the loop body.  \<open>kill()\<close> would take the sprite out of its groups,
  which empties the player group.\<close>

definition collide_tile ::
  "Square \<Rightarrow> Level \<times> 'a Character_scheme \<Rightarrow> Level \<times> 'a Character_scheme" where
  "collide_tile sprite s =
     (let L = fst s; c = snd s in
      if collides sprite \<and> colliderect (rect sprite) (rect c) then
        if kills sprite then
          (if is_player_group c (player L)
           then (L\<lparr>player := None, printed := printed L @ [''Player was killed'']\<rparr>, c)
           else (L, c))
        else if vx (direction c) < 0 then
          (L\<lparr>current_x := left (rect sprite)\<rparr>,
           c\<lparr>rect := set_left (right (rect sprite)) (rect c),
             collisions := insert LEFT (collisions c)\<rparr>)
        else if vx (direction c) > 0 then
          (L\<lparr>current_x := right (rect sprite)\<rparr>,
           c\<lparr>rect := set_right (left (rect sprite)) (rect c),
             collisions := insert RIGHT (collisions c)\<rparr>)
        else (L, c)
      else (L, c))"

definition tile_step ::
  "Square \<Rightarrow> Level \<times> 'a Character_scheme \<Rightarrow> Level \<times> 'a Character_scheme" where
  "tile_step sprite s = collide_tile sprite (fst s, enemy_turn sprite (snd s))"

text \<open>The sweep over the tiles \<open>ts\<close>, in the group's order, after the x-advance.\<close>

definition sweep ::
  "Square list \<Rightarrow> Level \<Rightarrow> 'a Character_scheme \<Rightarrow> Level \<times> 'a Character_scheme" where
  "sweep ts L c = fold tile_step ts (L, advance_x c)"

text \<open>The two statements after the loop.\<close>

definition clear_flags :: "Level \<Rightarrow> 'a Character_scheme \<Rightarrow> 'a Character_scheme" where
  "clear_flags L c =
     (let c1 = (if LEFT \<in> collisions c \<and> (left (rect c) < current_x L \<or> vx (direction c) \<ge> 0)
                then c\<lparr>collisions := collisions c - {LEFT}\<rparr> else c)
      in if RIGHT \<in> collisions c1 \<and> (right (rect c1) > current_x L \<or> vx (direction c1) \<le> 0)
         then c1\<lparr>collisions := collisions c1 - {RIGHT}\<rparr> else c1)"

definition horizontal_movement_collision ::
  "Level \<Rightarrow> 'a Character_scheme \<Rightarrow> Level \<times> 'a Character_scheme" where
  "horizontal_movement_collision L c =
     (let s = sweep (tiles L) L c in (fst s, clear_flags (fst s) (snd s)))"

subsection \<open>Level.vertical_movement_collision\<close>

text \<open>
  The body of the loop for one sprite and the player \<open>p\<close>.  \<open>None\<close>: the sprite is a solid
  killing tile that intersects the player, \<open>player.kill()\<close> ran and GameOver was raised.
  \<open>Some (p', keep)\<close>: the body ended with the player \<open>p'\<close>; \<open>keep\<close> is false when the sprite
  was collected (\<open>sprite.kill()\<close> took it out of the tile group).
\<close>

definition vertical_tile :: "Square \<Rightarrow> Player \<Rightarrow> (Player \<times> bool) option" where
  "vertical_tile sprite p =
     (if collides sprite \<and> colliderect (rect sprite) (rect p) \<and> kills sprite then None
      else
        let p1 =
          (if collides sprite \<and> colliderect (rect sprite) (rect p) then
             if vy (direction p) > 0 then
               p\<lparr>rect := set_bottom (top_edge (rect sprite)) (rect p),
                 direction := (direction p)\<lparr>vy := 0\<rparr>,
                 collisions := insert BOTTOM (collisions p)\<rparr>
             else if vy (direction p) < 0 then
               p\<lparr>rect := set_top (bottom (rect sprite)) (rect p),
                 direction := (direction p)\<lparr>vy := 0\<rparr>,
                 collisions := insert TOP (collisions p)\<rparr>
             else p
           else p)
        in if collectable sprite \<and> colliderect (rect sprite) (rect p1)
           then Some (p1\<lparr>player_score := player_score p1 + 1\<rparr>, False)
           else Some (p1, True))"

text \<open>
  The loop over \<open>self.tiles.sprites()\<close>.  The result is the tile group when the loop ended,
  and the player: \<open>None\<close> when GameOver was raised (the player was killed, the rest of the
  tiles was not visited).
\<close>

fun vertical_sweep :: "Square list \<Rightarrow> Player \<Rightarrow> Square list \<times> Player option" where
  "vertical_sweep [] p = ([], Some p)"
| "vertical_sweep (sprite # rest) p =
     (case vertical_tile sprite p of
        None \<Rightarrow> (sprite # rest, None)
      | Some (p', keep) \<Rightarrow>
          (let r = vertical_sweep rest p'
           in ((if keep then [sprite] else []) @ fst r, snd r)))"

text \<open>The two statements after the loop.\<close>

definition clear_vertical_flags :: "Player \<Rightarrow> Player" where
  "clear_vertical_flags p =
     (let p1 = (if BOTTOM \<in> collisions p \<and> (vy (direction p) < 0 \<or> vy (direction p) > 1)
                then p\<lparr>collisions := collisions p - {BOTTOM}\<rparr> else p)
      in if TOP \<in> collisions p1 \<and> vy (direction p1) > 1 / 10
         then p1\<lparr>collisions := collisions p1 - {TOP}\<rparr> else p1)"

definition vertical_movement_collision :: "Level \<Rightarrow> Level outcome" where
  "vertical_movement_collision L =
     (case player L of
        None \<Rightarrow> Inl (AttributeError, L)
      | Some p \<Rightarrow>
          (case vertical_sweep (tiles L) (apply_gravity p) of
             (ts, None) \<Rightarrow> Inl (GameOver, L\<lparr>tiles := ts, player := None\<rparr>)
           | (ts, Some p') \<Rightarrow> Inr (L\<lparr>tiles := ts, player := Some (clear_vertical_flags p')\<rparr>)))"

subsection \<open>Level.run and the event loop of game.py\<close>

text \<open>What one pass of the event loop reads from outside: whether a QUIT event is queued,
  the pressed keys, and the two clock readings of a shot.\<close>

record frame =
  quit_event :: bool
  keys :: Keys
  clock_first :: pyfloat
  clock_second :: pyfloat

text \<open>The loop \<open>for enemy in self.enemies: self.horizontal_movement_collision(enemy.sprite)\<close>;
  an empty group gives the character None, whose \<open>rect\<close> cannot be read.  The result is
  the exception, if one was raised, the enemy groups and the level.\<close>

fun enemies_collision ::
  "EnemyGroup list \<Rightarrow> Level \<Rightarrow> exception option \<times> EnemyGroup list \<times> Level" where
  "enemies_collision [] L = (None, [], L)"
| "enemies_collision (None # gs) L = (Some AttributeError, None # gs, L)"
| "enemies_collision (Some e # gs) L =
     (let s = horizontal_movement_collision L e;
          r = enemies_collision gs (fst s)
      in (fst r, Some (snd s) # fst (snd r), snd (snd r)))"

text \<open>\<open>Level.display_enemies\<close>: every group updates the enemy it holds.\<close>

fun display_enemies :: "EnemyGroup list \<Rightarrow> exception option \<times> EnemyGroup list" where
  "display_enemies [] = (None, [])"
| "display_enemies (None # gs) =
     (let r = display_enemies gs in (fst r, None # snd r))"
| "display_enemies (Some e # gs) =
     (case Enemy_update e of
        Inl (ex, e') \<Rightarrow> (Some ex, Some e' # gs)
      | Inr e' \<Rightarrow> (let r = display_enemies gs in (fst r, Some e' # snd r)))"

text \<open>
  \<open>Level.run\<close>, in three parts: what runs before \<open>vertical_movement_collision\<close>, that
  method, and what runs after it.  Saving (key S) goes to the database and the remote
  service and is left out.
\<close>

definition before_vertical :: "frame \<Rightarrow> Level \<Rightarrow> Level outcome" where
  "before_vertical f L =
     and_then
       (handle_horizontal_movement (L\<lparr>tiles := map (Square_update (world_shift L)) (tiles L)\<rparr>))
       (\<lambda>L1.
          case player L1 of
            None \<Rightarrow> Inl (AttributeError, L1)
          | Some p \<Rightarrow>
              (case Player_update (keys f) (clock_first f) (clock_second f) p of
                 Inl (ex, p') \<Rightarrow> Inl (ex, L1\<lparr>player := Some p'\<rparr>)
               | Inr p' \<Rightarrow>
                   (let s = horizontal_movement_collision (L1\<lparr>player := Some p'\<rparr>) p';
                        L2 = (fst s)\<lparr>player := (case player (fst s) of
                                                  None \<Rightarrow> None
                                                | Some q \<Rightarrow> Some (snd s))\<rparr>;
                        r = enemies_collision (enemies L2) L2;
                        L3 = (snd (snd r))\<lparr>enemies := fst (snd r)\<rparr>
                    in case fst r of
                         Some ex \<Rightarrow> Inl (ex, L3)
                       | None \<Rightarrow> Inr L3)))"

definition after_vertical :: "frame \<Rightarrow> Level \<Rightarrow> Level outcome" where
  "after_vertical f L =
     (let r = display_enemies (enemies L);
          L1 = L\<lparr>enemies := snd r\<rparr>
      in case fst r of
           Some ex \<Rightarrow> Inl (ex, L1)
         | None \<Rightarrow> if K_ESCAPE (keys f) then Inl (GameOver, L1) else Inr L1)"

definition run :: "frame \<Rightarrow> Level \<Rightarrow> Level outcome" where
  "run f L =
     and_then (before_vertical f L) (\<lambda>L1.
     and_then (vertical_movement_collision L1) (after_vertical f))"

text \<open>
  \<open>main\<close> of game.py, driven by the frames \<open>fs\<close>.  The result is how the loop ended
  (\<open>None\<close>: it is still running when the frames are used up), the level, and the number
  of calls of \<open>level.run\<close>.  A QUIT event ends the process through \<open>sys.exit()\<close> (exit
  status 0); GameOver is caught and ends it with \<open>SystemExit(0)\<close>; any other exception
  propagates.
\<close>

fun main :: "frame list \<Rightarrow> Level \<Rightarrow> exception option \<times> Level \<times> nat" where
  "main [] L = (None, L, 0)"
| "main (f # fs) L =
     (if quit_event f then (Some (SystemExit 0), L, 0)
      else case run f L of
             Inl (ex, L') \<Rightarrow> (Some (if ex = GameOver then SystemExit 0 else ex), L', 1)
           | Inr L' \<Rightarrow>
               (let r = main fs L' in (fst r, fst (snd r), Suc (snd (snd r)))))"

section \<open>Example data for the closed instances below\<close>

definition example_surface :: Surface where
  "example_surface = \<lparr>surf_w = 16, surf_h = 16, blank = False\<rparr>"

definition example_assets :: Assets where
  "example_assets =
     \<lparr>map_square = example_surface,
      map_coin = example_surface,
      bullet_tile = example_surface,
      player_idle_image = \<lparr>surf_w = 40, surf_h = 56, blank = False\<rparr>,
      enemy_start_image = \<lparr>surf_w = 48, surf_h = 64, blank = False\<rparr>,
      character_animations = (\<lambda>_. [\<lparr>surf_w = 40, surf_h = 56, blank = False\<rparr>]),
      dust_run_animation = [example_surface],
      enemy_folder = [\<lparr>surf_w = 48, surf_h = 64, blank = False\<rparr>]\<rparr>"

text \<open>Frames of the event loop: no key pressed, and the left key pressed.\<close>

definition no_keys :: Keys where
  "no_keys = \<lparr>K_RIGHT = False, K_LEFT = False, K_UP = False, K_SPACE = False,
              K_ESCAPE = False, K_s = False\<rparr>"

definition idle_frame :: frame where
  "idle_frame = \<lparr>quit_event = False, keys = no_keys, clock_first = 1000, clock_second = 1000\<rparr>"

definition left_frame :: frame where
  "left_frame = idle_frame\<lparr>keys := no_keys\<lparr>K_LEFT := True\<rparr>\<rparr>"

text \<open>The level of the layout \<open>["D P"]\<close> (lemma \<open>death_level_init\<close>): the player's cell
  lies inside the 256 by 256 killing tile of the \<open>D\<close> cell.\<close>

definition death_level :: Level where
  "death_level =
     \<lparr>level_data = [''D P''], enemies = [], tiles = [death_tile 0 0],
      player = Some (Player_init example_assets 128 0),
      world_shift = 0, current_x = 0, landed = False, printed = []\<rparr>"

text \<open>
  The level of the layout \<open>["E XP"]\<close> (lemma \<open>two_tile_level_init\<close>): the solid tile of
  the \<open>E\<close> cell spans x from 0 to 256, the wall from 128 to 192, and the player starts at
  192.  \<open>walking_left\<close> is the player sprite as \<open>Player.update\<close> leaves it in the first
  frame when the left key is down (lemma \<open>walking_left_update\<close>), and \<open>walk_level\<close> the
  level \<open>horizontal_movement_collision\<close> is then called on.
\<close>

definition two_tile_level :: Level where
  "two_tile_level =
     \<lparr>level_data = [''E XP''],
      enemies = [Some (Enemy_init example_assets 0 (- 64))],
      tiles = [enemy_tile 0 0, wall_tile example_assets 128 0],
      player = Some (Player_init example_assets 192 0),
      world_shift = 0, current_x = 0, landed = False, printed = []\<rparr>"

definition walking_left :: Player where
  "walking_left =
     (Player_init example_assets 192 0)
       \<lparr>direction := \<lparr>vx = - 1, vy = 0\<rparr>, orientation := Orientation_LEFT,
        frame_index := 3 / 20, status := RUN\<rparr>"

definition walk_level :: Level where
  "walk_level = two_tile_level\<lparr>player := Some walking_left\<rparr>"

text \<open>
  The level of the layout \<open>["ED P"]\<close> (lemma \<open>ed_level_init\<close>): the player's cell lies
  inside the solid tile of the \<open>E\<close> cell (x from 0 to 256) and inside the killing tile of
  the \<open>D\<close> cell (x from 64 to 320), and the \<open>E\<close> tile comes first in the tile group.
  \<open>ed_player\<close> is the player sprite when the first frame, with no key down, reaches
  \<open>vertical_movement_collision\<close>.
\<close>

definition ed_level :: Level where
  "ed_level =
     \<lparr>level_data = [''ED P''],
      enemies = [Some (Enemy_init example_assets 0 (- 64))],
      tiles = [enemy_tile 0 0, death_tile 64 0],
      player = Some (Player_init example_assets 192 0),
      world_shift = 0, current_x = 0, landed = False, printed = []\<rparr>"

definition ed_player :: Player where
  "ed_player = (Player_init example_assets 192 0)\<lparr>frame_index := 3 / 20\<rparr>"

text \<open>
  A tile group that holds a coin only (the coin of the cell at column 2 of row 0, lemma
  \<open>coin_level_init\<close>), and an enemy that has been given the direction 2 to the right, so
  that it advances by 7 and its right edge is inside the coin's span after the x-advance.
  No code of the game gives an enemy a direction other than (0, 0); \<open>standing_enemy\<close> is
  an enemy as the game has it.
\<close>

definition coin_level :: Level where
  "coin_level =
     \<lparr>level_data = [''P C''], enemies = [], tiles = [coin_tile example_assets 128 0],
      player = Some (Player_init example_assets 0 0),
      world_shift = 0, current_x = 0, landed = False, printed = []\<rparr>"



section \<open>Theorems\<close>

lemma validate_str_list_map_JString: "validate_str_list k (map JString rs) = Inr rs"
  by (induction rs) (simp_all add: validate_str_def and_then_def)

text \<open>
  Claim C9.  Reading back what \<open>to_json\<close> wrote gives the same save, for every save
  (the map may be empty and its rows may be empty strings), and the written dict has
  exactly the five keys name, score, level, map, created_at.
\<close>

theorem save_round_trip:
  "from_json (to_json s) = Inr s \<and>
   map fst (to_json s) = [''name'', ''score'', ''level'', ''map'', ''created_at'']"
  by (simp add: from_json_def to_json_def getitem_def validate_str_def validate_int_def
      validate_map_def validate_str_list_map_JString and_then_def)

text \<open>
  Claim C3.  \<open>Player.update_status\<close> sets the state from the velocity alone, for every
  velocity: JUMP when \<open>direction.y < 0\<close>; else FALL when \<open>direction.y > 1\<close>; else RUN when
  \<open>direction.x \<noteq> 0\<close>; else IDLE.  Nothing else of the player changes, and any two players
  with the same velocity get the same state, whatever their other attributes are.
\<close>

theorem update_status_pure:
  "update_status p =
     p\<lparr>status := (if vy (direction p) < 0 then JUMP
                   else if vy (direction p) > 1 then FALL
                   else if vx (direction p) \<noteq> 0 then RUN
                   else IDLE)\<rparr>
   \<and> status (update_status (q\<lparr>direction := direction p\<rparr>)) = status (update_status p)"
  by (simp add: update_status_def)

lemma Bullet_update_dead:
  "\<bar>x (rect (Bullet_update b)) - fst (spawn (Bullet_update b))\<bar> > 550
     \<longrightarrow> \<not> is_alive (Bullet_update b) \<and> \<not> in_group (Bullet_update b)"
  by (simp add: Bullet_update_def Let_def)

lemma display_bullets_fst: "fst (display_bullets bs) = map display_bullet bs"
  by (simp add: display_bullets_def Let_def)

lemma length_bullets_after: "length (bullets_after n bs) = length bs"
  by (induction n) (simp_all add: display_bullets_fst)

text \<open>
  Claim C4, as amended.  After any frame (one call of \<open>display_bullets\<close>, which updates
  every bullet of the owner's list), a bullet whose horizontal displacement from its spawn
  x exceeds 550 is dead (\<open>is_alive\<close> false) and member of no sprite group, so it is not
  drawn; the owner's list, however, keeps every bullet: its length never changes.
\<close>

theorem bullet_out_of_range_dead:
  assumes "0 < n"
  shows "length (bullets_after n bs) = length bs \<and>
         (\<forall>b \<in> set (bullets_after n bs).
            \<bar>x (rect b) - fst (spawn b)\<bar> > 550 \<longrightarrow> \<not> is_alive b \<and> \<not> in_group b)"
proof -
  obtain m where n: "n = Suc m" using assms by (cases n) auto
  have "\<not> is_alive b \<and> \<not> in_group b"
    if "b \<in> set (bullets_after (Suc m) bs)" and "\<bar>x (rect b) - fst (spawn b)\<bar> > 550" for b
  proof -
    from that(1) obtain b0 where "b = display_bullet b0"
      by (auto simp: display_bullets_fst)
    with that(2) show ?thesis
      using Bullet_update_dead[of "b0\<lparr>in_group := True\<rparr>"] by (simp add: display_bullet_def)
  qed
  with n show ?thesis by (simp only: length_bullets_after) blast
qed

theorem bullet_out_of_range_dead_witness:
  "map (\<lambda>b. (x (rect b), is_alive b, in_group b))
     (bullets_after 1 [(Bullet_init 0 0 example_surface Orientation_RIGHT 7)
                          \<lparr>rect := \<lparr>x = 546, y = 0, w = 16, h = 16\<rparr>\<rparr>])
   = [(553, False, False)]"
  using bullet_out_of_range_dead[of 1 "[(Bullet_init 0 0 example_surface Orientation_RIGHT 7)
                          \<lparr>rect := \<lparr>x = 546, y = 0, w = 16, h = 16\<rparr>\<rparr>]"]
  by (simp add: display_bullets_fst display_bullet_def Bullet_update_def Bullet_init_def Let_def)

text \<open>
  The claim as stated fails: a bullet fired to the right from x = 0 at the bullet speed 7
  is 553 units out after 79 frames and dead, and it is still in its owner's list.
\<close>

theorem bullet_stays_in_list:
  "map (\<lambda>b. (x (rect b), fst (spawn b), is_alive b))
     (bullets_after 79 [Bullet_init 0 0 example_surface Orientation_RIGHT BULLET_SPEED])
   = [(553, 0, False)]"
  by code_simp

text \<open>
  Claim C5.  \<open>Shooter.shoot\<close> appends exactly one bullet, at the shooter's current x, y and
  orientation, and stores the new timestamp exactly when the time since \<open>last_shot\<close>
  strictly exceeds 0.18 s; otherwise nothing changes.  So a request made 0.05 s after a
  successful shot (after the timestamp that shot stored) adds no bullet, and a request
  made 0.2 s after it adds a second one.
\<close>

theorem shoot_cooldown:
  "(shoot now now' img spd p =
      (if now - last_shot p > SHOOT_DELAY
       then p\<lparr>bullets := bullets p @ [Bullet_init (Player_x p) (Player_y p) img (orientation p) spd],
              last_shot := now'\<rparr>
       else p))
   \<and> (now - last_shot p > SHOOT_DELAY \<longrightarrow>
        (let b = last (bullets (shoot now now' img spd p)) in
           length (bullets (shoot now now' img spd p)) = length (bullets p) + 1
           \<and> x (rect b) = Player_x p \<and> y (rect b) = Player_y p
           \<and> bullet_orientation b = orientation p \<and> is_alive b)
        \<and> last_shot (shoot now now' img spd p) = now')
   \<and> (now - last_shot p > SHOOT_DELAY \<longrightarrow>
        length (bullets (shoot (now' + 5 / 100) later img spd (shoot now now' img spd p)))
          = length (bullets p) + 1)
   \<and> (now - last_shot p > SHOOT_DELAY \<longrightarrow>
        length (bullets (shoot (now' + 2 / 10) later img spd (shoot now now' img spd p)))
          = length (bullets p) + 2)"
  by (simp add: shoot_def SHOOT_DELAY_def Bullet_init_def get_rect_topleft_def)

theorem shoot_cooldown_witness:
  "length (bullets (shoot 1000 1000 example_surface BULLET_SPEED (Player_init example_assets 64 128))) = 1
   \<and> length (bullets (shoot (1000 + 5 / 100) (1000 + 5 / 100) example_surface BULLET_SPEED
        (shoot 1000 1000 example_surface BULLET_SPEED (Player_init example_assets 64 128)))) = 1
   \<and> length (bullets (shoot (1000 + 2 / 10) (1000 + 2 / 10) example_surface BULLET_SPEED
        (shoot 1000 1000 example_surface BULLET_SPEED (Player_init example_assets 64 128)))) = 2"
proof -
  have l: "last_shot (Player_init example_assets 64 128) = 0"
    and b: "bullets (Player_init example_assets 64 128) = []"
    by (simp_all add: Player_init_def Character.extend_def Player.fields_def)
  have h: "1000 - last_shot (Player_init example_assets 64 128) > SHOOT_DELAY"
    by (simp add: l SHOOT_DELAY_def)
  show ?thesis
    using shoot_cooldown[where now = 1000 and now' = 1000 and img = example_surface
        and spd = BULLET_SPEED and p = "Player_init example_assets 64 128"
        and later = "1000 + 5 / 100"]
      shoot_cooldown[where now = 1000 and now' = 1000 and img = example_surface
        and spd = BULLET_SPEED and p = "Player_init example_assets 64 128"
        and later = "1000 + 2 / 10"] h b
    by (simp add: Let_def shoot_def SHOOT_DELAY_def l)
qed

lemma spawn_cell_valid:
  "CellType_of cell \<noteq> None \<Longrightarrow>
   \<exists>st'. spawn_cell A r c cell st = Inr st' \<and>
     (player_sprite st' \<noteq> None \<longleftrightarrow> player_sprite st \<noteq> None \<or> cell = CHR ''P'')"
  by (auto simp: spawn_cell_def CellType_of_def Let_def split: if_splits)

lemma spawn_row_valid:
  "\<forall>cell\<in>set cells. CellType_of cell \<noteq> None \<Longrightarrow>
   \<exists>st'. spawn_row A r c cells st = Inr st' \<and>
     (player_sprite st' \<noteq> None \<longleftrightarrow> player_sprite st \<noteq> None \<or> CHR ''P'' \<in> set cells)"
proof (induction cells arbitrary: c st)
  case Nil
  then show ?case by simp
next
  case (Cons cell cells)
  from Cons.prems obtain st1 where 1: "spawn_cell A r c cell st = Inr st1"
    and p1: "player_sprite st1 \<noteq> None \<longleftrightarrow> player_sprite st \<noteq> None \<or> cell = CHR ''P''"
    using spawn_cell_valid[of cell A r c st] by auto
  from Cons.prems Cons.IH[of "Suc c" st1] obtain st' where
    2: "spawn_row A r (Suc c) cells st1 = Inr st'"
    and p2: "player_sprite st' \<noteq> None \<longleftrightarrow> player_sprite st1 \<noteq> None \<or> CHR ''P'' \<in> set cells"
    by auto
  from 1 2 p1 p2 show ?case by (auto simp: and_then_def)
qed

lemma spawn_rows_valid:
  "\<forall>row\<in>set rows. \<forall>cell\<in>set row. CellType_of cell \<noteq> None \<Longrightarrow>
   \<exists>st'. spawn_rows A r rows st = Inr st' \<and>
     (player_sprite st' \<noteq> None \<longleftrightarrow> player_sprite st \<noteq> None \<or> (\<exists>row\<in>set rows. CHR ''P'' \<in> set row))"
proof (induction rows arbitrary: r st)
  case Nil
  then show ?case by simp
next
  case (Cons row rows)
  from Cons.prems obtain st1 where 1: "spawn_row A r 0 row st = Inr st1"
    and p1: "player_sprite st1 \<noteq> None \<longleftrightarrow> player_sprite st \<noteq> None \<or> CHR ''P'' \<in> set row"
    using spawn_row_valid[of row A r 0 st] by auto
  from Cons.prems Cons.IH[of "Suc r" st1] obtain st' where
    2: "spawn_rows A (Suc r) rows st1 = Inr st'"
    and p2: "player_sprite st' \<noteq> None \<longleftrightarrow> player_sprite st1 \<noteq> None \<or> (\<exists>row\<in>set rows. CHR ''P'' \<in> set row)"
    by auto
  from 1 2 p1 p2 show ?case by (auto simp: and_then_def)
qed

text \<open>
  Claim C8.  For a layout whose cells are all cell codes, \<open>spawn_sprites\<close> raises if and
  only if no cell is \<open>P\<close>, and the exception is then the ValueError "No player found"; with
  a \<open>P\<close> cell it returns the tile group and a player group that holds the player.
\<close>

theorem spawn_sprites_no_player:
  assumes "\<forall>row\<in>set layout. \<forall>cell\<in>set row. CellType_of cell \<noteq> None"
  shows "((\<exists>e. spawn_sprites A es layout = Inl e) \<longleftrightarrow> \<not> (\<exists>row\<in>set layout. CHR ''P'' \<in> set row))
       \<and> (\<not> (\<exists>row\<in>set layout. CHR ''P'' \<in> set row) \<longrightarrow>
             spawn_sprites A es layout = Inl (ValueError ''No player found''))
       \<and> ((\<exists>row\<in>set layout. CHR ''P'' \<in> set row) \<longrightarrow>
             (\<exists>ts p ens. spawn_sprites A es layout = Inr (ts, Some p, ens)))"
proof -
  from assms obtain st' where
    1: "spawn_rows A 0 layout \<lparr>sp_tiles = [], player_sprite = None, sp_enemies = es\<rparr> = Inr st'"
    and p: "player_sprite st' \<noteq> None \<longleftrightarrow> (\<exists>row\<in>set layout. CHR ''P'' \<in> set row)"
    using spawn_rows_valid[of layout A 0 "\<lparr>sp_tiles = [], player_sprite = None, sp_enemies = es\<rparr>"]
    by auto
  show ?thesis
  proof (cases "player_sprite st'")
    case None
    with 1 p show ?thesis by (simp add: spawn_sprites_def and_then_def)
  next
    case (Some pl)
    with 1 p show ?thesis by (simp add: spawn_sprites_def and_then_def)
  qed
qed

theorem spawn_sprites_no_player_witness:
  "spawn_sprites example_assets [] [''X X'', ''XPX'', ''XXX''] \<noteq> Inl (ValueError ''No player found'')
   \<and> spawn_sprites example_assets [] [''X X'', ''XEX'', ''XXX''] = Inl (ValueError ''No player found'')"
  using spawn_sprites_no_player[of "[''X X'', ''XPX'', ''XXX'']" example_assets "[]"]
    spawn_sprites_no_player[of "[''X X'', ''XEX'', ''XXX'']" example_assets "[]"]
  by (auto simp: CellType_of_def)









lemma death_level_init: "Level_init example_assets [''D P''] = Inr death_level"
  by (simp add: Level_init_def spawn_sprites_def spawn_cell_def CellType_of_def and_then_def
      Let_def death_level_def tile_size_def)

lemma two_tile_level_init: "Level_init example_assets [''E XP''] = Inr two_tile_level"
  by (simp add: Level_init_def spawn_sprites_def spawn_cell_def CellType_of_def and_then_def
      Let_def two_tile_level_def tile_size_def)

lemma coin_level_init: "Level_init example_assets [''P C''] = Inr coin_level"
  by (simp add: Level_init_def spawn_sprites_def spawn_cell_def CellType_of_def and_then_def
      Let_def coin_level_def tile_size_def)

lemma floor_fraction: "\<lfloor>numeral a / numeral b :: rat\<rfloor> = numeral a div numeral b"
  using floor_divide_of_int_eq[of "numeral a" "numeral b", where ?'a = rat] by simp

lemmas example_defs =
  enemy_tile_def wall_tile_def death_tile_def coin_tile_def Square_at_def scaled_def
  blank_surface_def get_rect_topleft_def
  Player_init_def Enemy_init_def Character_init_def Character.extend_def Player.fields_def
  Enemy.fields_def example_assets_def example_surface_def

lemma walking_left_update:
  "handle_horizontal_movement two_tile_level = Inr two_tile_level
   \<and> Player_update (keys left_frame) (clock_first left_frame) (clock_second left_frame)
         (Player_init example_assets 192 0) = Inr walking_left"
  by (simp add: handle_horizontal_movement_def Player_update_def
        handle_key_presses_def set_orientation_def update_status_def animate_def
        run_dust_animation_def display_bullets_def handle_collisions_def list_getitem_def
        flip_image_def and_then_def Let_def centerx_def screen_width_def
        PLAYER_ANIMATION_def PLAYER_MOVEMENT_def int_of_float_def floor_fraction
        left_frame_def idle_frame_def no_keys_def two_tile_level_def walking_left_def
        example_defs)

lemma sweep_snoc: "sweep (pre @ [t]) L c = tile_step t (sweep pre L c)"
  by (simp add: sweep_def)

lemma enemy_turn_frame:
  "rect (enemy_turn t c) = rect c \<and> cls (enemy_turn t c) = cls c
   \<and> collisions (enemy_turn t c) = collisions c
   \<and> (cls c \<noteq> Enemy_class \<longrightarrow> enemy_turn t c = c)"
  by (simp add: enemy_turn_def)

lemma tile_step_player_direction:
  "cls (snd s) \<noteq> Enemy_class \<Longrightarrow>
   cls (snd (tile_step t s)) \<noteq> Enemy_class \<and> direction (snd (tile_step t s)) = direction (snd s)"
  by (simp add: tile_step_def collide_tile_def enemy_turn_def Let_def)

lemma fold_tile_step_player_direction:
  "cls (snd s) \<noteq> Enemy_class \<Longrightarrow>
   cls (snd (fold tile_step ts s)) \<noteq> Enemy_class
   \<and> direction (snd (fold tile_step ts s)) = direction (snd s)"
proof (induction ts arbitrary: s)
  case Nil
  then show ?case by simp
next
  case (Cons t ts)
  from tile_step_player_direction[OF Cons.prems, of t] Cons.IH[of "tile_step t s"]
  show ?case by simp
qed

lemma sweep_player_direction:
  "cls c \<noteq> Enemy_class \<Longrightarrow> direction (snd (sweep ts L c)) = direction c"
  using fold_tile_step_player_direction[of "(L, advance_x c)" ts]
  by (simp add: sweep_def advance_x_def)

lemma clear_flags_frame:
  "rect (clear_flags L c) = rect c \<and> direction (clear_flags L c) = direction c
   \<and> (LEFT \<in> collisions (clear_flags L c) \<longleftrightarrow>
        LEFT \<in> collisions c \<and> \<not> (left (rect c) < current_x L \<or> vx (direction c) \<ge> 0))
   \<and> (RIGHT \<in> collisions (clear_flags L c) \<longleftrightarrow>
        RIGHT \<in> collisions c \<and> \<not> (right (rect c) > current_x L \<or> vx (direction c) \<le> 0))"
  by (auto simp: clear_flags_def Let_def)

text \<open>
  Claim C1, as amended.  Let the sweep of \<open>horizontal_movement_collision\<close> reach a solid
  non-killing tile \<open>t\<close> that intersects the character's rectangle as it is at that moment
  (after the x-advance and the snaps of the tiles before \<open>t\<close>), and let \<open>d\<close> be the
  character's \<open>direction.x\<close> at the collision test (for an enemy after the reversal
  check for \<open>t\<close>; for any other character the \<open>direction.x\<close> it came with).  If
  \<open>d < 0\<close> the character's left edge is set to the tile's right edge, LEFT is added and
  \<open>current_x\<close> becomes the tile's left edge; if \<open>d > 0\<close> its right edge is set to the
  tile's left edge, RIGHT is added and \<open>current_x\<close> becomes the tile's right edge.  After
  the sweep, LEFT is in the collision set exactly when it was there and neither the left
  edge is strictly less than \<open>current_x\<close> nor \<open>direction.x \<ge> 0\<close>; RIGHT exactly when it
  was there and neither the right edge is strictly greater than \<open>current_x\<close> nor
  \<open>direction.x \<le> 0\<close>; the clearing changes nothing else.
\<close>

theorem horizontal_sweep_snaps:
  assumes "tiles L = pre @ t # post"
    and "sweep pre L c = (L1, c1)"
    and "collides t" and "\<not> kills t" and "colliderect (rect t) (rect c1)"
  shows
    "(let d = vx (direction (enemy_turn t c1));
          s2 = sweep (pre @ [t]) L c;
          sw = sweep (tiles L) L c;
          res = horizontal_movement_collision L c
      in (d < 0 \<longrightarrow> left (rect (snd s2)) = right (rect t) \<and> LEFT \<in> collisions (snd s2)
                    \<and> current_x (fst s2) = left (rect t))
       \<and> (d > 0 \<longrightarrow> right (rect (snd s2)) = left (rect t) \<and> RIGHT \<in> collisions (snd s2)
                    \<and> current_x (fst s2) = right (rect t))
       \<and> (cls c \<noteq> Enemy_class \<longrightarrow> d = vx (direction c))
       \<and> (LEFT \<in> collisions (snd res) \<longleftrightarrow>
            LEFT \<in> collisions (snd sw)
            \<and> \<not> (left (rect (snd res)) < current_x (fst res) \<or> vx (direction (snd res)) \<ge> 0))
       \<and> (RIGHT \<in> collisions (snd res) \<longleftrightarrow>
            RIGHT \<in> collisions (snd sw)
            \<and> \<not> (right (rect (snd res)) > current_x (fst res) \<or> vx (direction (snd res)) \<le> 0))
       \<and> rect (snd res) = rect (snd sw) \<and> direction (snd res) = direction (snd sw)
       \<and> fst res = fst sw)"
proof -
  have s2: "sweep (pre @ [t]) L c = collide_tile t (L1, enemy_turn t c1)"
    by (simp add: sweep_snoc assms(2) tile_step_def)
  have hit: "colliderect (rect t) (rect (enemy_turn t c1))"
    using assms(5) by (simp add: enemy_turn_frame)
  have l: "vx (direction (enemy_turn t c1)) < 0 \<Longrightarrow>
        left (rect (snd (sweep (pre @ [t]) L c))) = right (rect t)
        \<and> LEFT \<in> collisions (snd (sweep (pre @ [t]) L c))
        \<and> current_x (fst (sweep (pre @ [t]) L c)) = left (rect t)"
    using assms(3,4) hit by (simp add: s2 collide_tile_def Let_def set_left_def left_def)
  have r: "vx (direction (enemy_turn t c1)) > 0 \<Longrightarrow>
        right (rect (snd (sweep (pre @ [t]) L c))) = left (rect t)
        \<and> RIGHT \<in> collisions (snd (sweep (pre @ [t]) L c))
        \<and> current_x (fst (sweep (pre @ [t]) L c)) = right (rect t)"
    using assms(3,4) hit by (simp add: s2 collide_tile_def Let_def set_right_def right_def)
  have d: "cls c \<noteq> Enemy_class \<Longrightarrow> vx (direction (enemy_turn t c1)) = vx (direction c)"
  proof -
    assume p: "cls c \<noteq> Enemy_class"
    from fold_tile_step_player_direction[of "(L, advance_x c)" pre] p assms(2)
    have "cls c1 \<noteq> Enemy_class \<and> direction c1 = direction c"
      by (simp add: sweep_def advance_x_def)
    then show ?thesis by (simp add: enemy_turn_def)
  qed
  have f: "snd (horizontal_movement_collision L c)
             = clear_flags (fst (sweep (tiles L) L c)) (snd (sweep (tiles L) L c))
           \<and> fst (horizontal_movement_collision L c) = fst (sweep (tiles L) L c)"
    by (simp add: horizontal_movement_collision_def Let_def)
  show ?thesis
    unfolding Let_def using l r d clear_flags_frame[of "fst (sweep (tiles L) L c)" "snd (sweep (tiles L) L c)"]
    by (simp add: f)
qed

theorem horizontal_sweep_snaps_witness:
  "sweep [enemy_tile 0 0] walk_level walking_left
     = (walk_level,
        walking_left\<lparr>rect := \<lparr>x = 256, y = 0, w = 40, h = 56\<rparr>, collisions := {LEFT}\<rparr>)
   \<and> collisions (snd (horizontal_movement_collision walk_level walking_left)) = {LEFT}"
proof -
  have 1: "tiles walk_level = [] @ enemy_tile 0 0 # [wall_tile example_assets 128 0]"
    by (simp add: walk_level_def two_tile_level_def)
  have 2: "sweep [] walk_level walking_left = (walk_level, advance_x walking_left)"
    by (simp add: sweep_def)
  have 3: "collides (enemy_tile 0 0)" "\<not> kills (enemy_tile 0 0)"
    by (simp_all add: enemy_tile_def Square_at_def)
  have 4: "colliderect (rect (enemy_tile 0 0)) (rect (advance_x walking_left))"
    by (simp add: advance_x_def walking_left_def colliderect_def int_of_float_def
        PLAYER_MOVEMENT_def example_defs)
  show ?thesis
    using horizontal_sweep_snaps[OF 1 2 3 4]
    by (simp add: Let_def sweep_def tile_step_def collide_tile_def enemy_turn_def advance_x_def
        horizontal_movement_collision_def clear_flags_def
        walking_left_def walk_level_def two_tile_level_def
        colliderect_def int_of_float_def PLAYER_MOVEMENT_def
        set_left_def set_right_def left_def right_def example_defs)
qed

text \<open>
  The claim as stated fails for a tile that intersects the rectangle after the x-advance
  but no longer when the sweep reaches it.  In the first frame of the level of the layout
  \<open>["E XP"]\<close> with the left key down, the player's left edge is at 184 after the advance,
  and the rectangle overlaps the solid tile of the \<open>E\<close> cell (0 to 256) and the wall (128
  to 192).  The first tile of the group snaps the left edge to 256; the wall, whose right
  edge is 192, is then out of reach and leaves no trace: the left edge stays 256 and
  \<open>current_x\<close> stays 0, the left edge of the first tile, not 128.
\<close>

theorem second_tile_not_snapped:
  "collides (wall_tile example_assets 128 0) \<and> \<not> kills (wall_tile example_assets 128 0)
   \<and> tiles walk_level = [enemy_tile 0 0, wall_tile example_assets 128 0]
   \<and> colliderect (rect (wall_tile example_assets 128 0)) (rect (advance_x walking_left))
   \<and> left (rect (advance_x walking_left)) = 184
   \<and> vx (direction walking_left) < 0
   \<and> right (rect (wall_tile example_assets 128 0)) = 192
   \<and> left (rect (wall_tile example_assets 128 0)) = 128
   \<and> left (rect (snd (sweep [enemy_tile 0 0] walk_level walking_left))) = 256
   \<and> left (rect (snd (sweep (tiles walk_level) walk_level walking_left))) = 256
   \<and> current_x (fst (sweep (tiles walk_level) walk_level walking_left)) = 0
   \<and> left (rect (snd (horizontal_movement_collision walk_level walking_left))) = 256
   \<and> current_x (fst (horizontal_movement_collision walk_level walking_left)) = 0"
  by (simp add: Let_def sweep_def tile_step_def collide_tile_def enemy_turn_def advance_x_def
        horizontal_movement_collision_def clear_flags_def
        walking_left_def walk_level_def two_tile_level_def
        colliderect_def int_of_float_def PLAYER_MOVEMENT_def
        set_left_def set_right_def left_def right_def example_defs)

lemma vertical_sweep_append:
  "vertical_sweep pre p = (kept, Some p2) \<Longrightarrow>
   vertical_sweep (pre @ rest) p
     = (kept @ fst (vertical_sweep rest p2), snd (vertical_sweep rest p2))"
proof (induction pre arbitrary: p kept)
  case Nil
  then show ?case by simp
next
  case (Cons t pre)
  from Cons.prems obtain p' keep where 1: "vertical_tile t p = Some (p', keep)"
    by (cases "vertical_tile t p") auto
  obtain k r where 2: "vertical_sweep pre p' = (k, r)"
    by (cases "vertical_sweep pre p'")
  from Cons.prems 1 2 have 3: "r = Some p2" and 4: "kept = (if keep then [t] else []) @ k"
    by (simp_all add: Let_def)
  from Cons.IH[of p' k] 2 3
  have "vertical_sweep (pre @ rest) p'
          = (k @ fst (vertical_sweep rest p2), snd (vertical_sweep rest p2))"
    by simp
  with 1 4 show ?case by (simp add: Let_def)
qed

lemma main_append:
  "main fs0 L0 = (None, L, n) \<Longrightarrow>
   main (fs0 @ fs) L0 = (fst (main fs L), fst (snd (main fs L)), n + snd (snd (main fs L)))"
proof (induction fs0 arbitrary: L0 n)
  case Nil
  then show ?case by simp
next
  case (Cons f fs0)
  from Cons.prems have q: "\<not> quit_event f" by (auto split: if_splits)
  from Cons.prems q obtain L' where r: "run f L0 = Inr L'"
    by (cases "run f L0") (auto split: if_splits)
  obtain a b m where m: "main fs0 L' = (a, b, m)"
    by (cases "main fs0 L'") auto
  from Cons.prems q r m have "a = None" "b = L" "n = Suc m" by (simp_all add: Let_def)
  with Cons.IH[of L' m] m q r show ?case by (simp add: Let_def)
qed

text \<open>
  Claim C2, as amended.  Let the event loop have run \<open>n\<close> frames and still be running,
  and let the next frame reach \<open>vertical_movement_collision\<close>.  If the sweep there reaches
  a solid killing tile that intersects the player's rectangle at that moment (after
  gravity and after the snaps of the tiles visited before it), the player is killed (the
  player group is empty) and GameOver is raised; \<open>run\<close> raises it, and the event loop ends
  with \<open>SystemExit(0)\<close> after this call of \<open>run\<close>, whatever frames would follow.
\<close>

theorem killing_tile_ends_level:
  assumes "main fs0 L0 = (None, L, n)"
    and "\<not> quit_event f"
    and "before_vertical f L = Inr L1"
    and "player L1 = Some p"
    and "tiles L1 = pre @ t # post"
    and "vertical_sweep pre (apply_gravity p) = (kept, Some p2)"
    and "collides t" and "kills t" and "colliderect (rect t) (rect p2)"
  shows "vertical_movement_collision L1
           = Inl (GameOver, L1\<lparr>tiles := kept @ t # post, player := None\<rparr>)
       \<and> run f L = Inl (GameOver, L1\<lparr>tiles := kept @ t # post, player := None\<rparr>)
       \<and> main (fs0 @ f # fs) L0
           = (Some (SystemExit 0), L1\<lparr>tiles := kept @ t # post, player := None\<rparr>, n + 1)"
proof -
  have "vertical_tile t p2 = None"
    using assms(7-9) by (simp add: vertical_tile_def)
  then have "vertical_sweep (t # post) p2 = (t # post, None)" by simp
  with vertical_sweep_append[OF assms(6), of "t # post"]
  have "vertical_sweep (tiles L1) (apply_gravity p) = (kept @ t # post, None)"
    by (simp add: assms(5))
  then have v: "vertical_movement_collision L1
           = Inl (GameOver, L1\<lparr>tiles := kept @ t # post, player := None\<rparr>)"
    by (simp add: vertical_movement_collision_def assms(4))
  then have r: "run f L = Inl (GameOver, L1\<lparr>tiles := kept @ t # post, player := None\<rparr>)"
    by (simp add: run_def and_then_def assms(3))
  then have "main (f # fs) L
           = (Some (SystemExit 0), L1\<lparr>tiles := kept @ t # post, player := None\<rparr>, 1)"
    using assms(2) by simp
  with main_append[OF assms(1), of "f # fs"] v r show ?thesis by simp
qed

theorem killing_tile_ends_level_witness:
  "main ([] @ idle_frame # [idle_frame, idle_frame]) death_level
     = (Some (SystemExit 0), death_level\<lparr>player := None\<rparr>, 1)"
proof -
  define p1 where "p1 = (Player_init example_assets 128 0)\<lparr>frame_index := 3 / 20\<rparr>"
  have 1: "main [] death_level = (None, death_level, 0)" by simp
  have 2: "\<not> quit_event idle_frame" by (simp add: idle_frame_def)
  have 3: "before_vertical idle_frame death_level = Inr (death_level\<lparr>player := Some p1\<rparr>)"
    by (simp add: before_vertical_def handle_horizontal_movement_def Player_update_def
        handle_key_presses_def update_status_def animate_def run_dust_animation_def
        display_bullets_def handle_collisions_def list_getitem_def
        horizontal_movement_collision_def sweep_def tile_step_def collide_tile_def
        enemy_turn_def is_player_group_def advance_x_def clear_flags_def
        and_then_def Let_def Square_update_def centerx_def screen_width_def
        PLAYER_ANIMATION_def PLAYER_MOVEMENT_def int_of_float_def colliderect_def
        floor_fraction idle_frame_def no_keys_def death_level_def p1_def example_defs)
  have 4: "player (death_level\<lparr>player := Some p1\<rparr>) = Some p1" by simp
  have 5: "tiles (death_level\<lparr>player := Some p1\<rparr>) = [] @ death_tile 0 0 # []"
    by (simp add: death_level_def)
  have 6: "vertical_sweep [] (apply_gravity p1) = ([], Some (apply_gravity p1))" by simp
  have 7: "collides (death_tile 0 0)" "kills (death_tile 0 0)"
    by (simp_all add: death_tile_def Square_at_def)
  have 8: "colliderect (rect (death_tile 0 0)) (rect (apply_gravity p1))"
    by (simp add: apply_gravity_def colliderect_def GRAVITY_def int_of_float_def Let_def
        floor_fraction p1_def example_defs)
  show ?thesis
    using killing_tile_ends_level[OF 1 2 3 4 5 6 7 8, of "[idle_frame, idle_frame]"]
    by (simp add: death_level_def)
qed

lemma ed_level_init: "Level_init example_assets [''ED P''] = Inr ed_level"
  by (simp add: Level_init_def spawn_sprites_def spawn_cell_def CellType_of_def and_then_def
      Let_def ed_level_def tile_size_def)

text \<open>
  The claim as stated fails for a killing tile that intersects the player but no longer
  when the sweep reaches it.  In the first frame of the level of the layout \<open>["ED P"]\<close>,
  with no key down, the player's rectangle intersects the killing tile of the \<open>D\<close> cell
  before and after gravity.  The solid tile of the \<open>E\<close> cell is visited first and puts the
  player's bottom on its top edge (y = -56); the killing tile is then out of reach, no
  GameOver is raised, and the event loop is still running after three frames.
\<close>

theorem killing_tile_out_of_reach:
  "tiles ed_level = [enemy_tile 0 0, death_tile 64 0]
   \<and> collides (death_tile 64 0) \<and> kills (death_tile 64 0)
   \<and> before_vertical idle_frame ed_level = Inr (ed_level\<lparr>player := Some ed_player\<rparr>)
   \<and> colliderect (rect (death_tile 64 0)) (rect ed_player)
   \<and> colliderect (rect (death_tile 64 0)) (rect (apply_gravity ed_player))
   \<and> \<not> isl (vertical_movement_collision (ed_level\<lparr>player := Some ed_player\<rparr>))
   \<and> \<not> isl (run idle_frame ed_level)
   \<and> map_option (\<lambda>p. y (rect p)) (player (projr (run idle_frame ed_level))) = Some (- 56)
   \<and> fst (main [idle_frame, idle_frame, idle_frame] ed_level) = None
   \<and> snd (snd (main [idle_frame, idle_frame, idle_frame] ed_level)) = 3"
proof -
  have 1: "tiles ed_level = [enemy_tile 0 0, death_tile 64 0]
      \<and> collides (death_tile 64 0) \<and> kills (death_tile 64 0)"
    by (simp add: ed_level_def death_tile_def Square_at_def)
  have 2: "before_vertical idle_frame ed_level = Inr (ed_level\<lparr>player := Some ed_player\<rparr>)"
    by (simp add: before_vertical_def handle_horizontal_movement_def Player_update_def
        handle_key_presses_def update_status_def animate_def run_dust_animation_def
        display_bullets_def handle_collisions_def list_getitem_def
        horizontal_movement_collision_def sweep_def tile_step_def collide_tile_def
        enemy_turn_def is_player_group_def advance_x_def clear_flags_def
        and_then_def Let_def Square_update_def centerx_def screen_width_def
        PLAYER_ANIMATION_def PLAYER_MOVEMENT_def int_of_float_def colliderect_def
        floor_fraction left_def right_def
        idle_frame_def no_keys_def ed_level_def ed_player_def example_defs)
  have 3: "colliderect (rect (death_tile 64 0)) (rect ed_player)
      \<and> colliderect (rect (death_tile 64 0)) (rect (apply_gravity ed_player))
      \<and> \<not> isl (vertical_movement_collision (ed_level\<lparr>player := Some ed_player\<rparr>))"
    by code_simp
  have 4: "\<not> isl (run idle_frame ed_level)
      \<and> map_option (\<lambda>p. y (rect p)) (player (projr (run idle_frame ed_level))) = Some (- 56)"
    by code_simp
  have 5: "fst (main [idle_frame, idle_frame, idle_frame] ed_level) = None
      \<and> snd (snd (main [idle_frame, idle_frame, idle_frame] ed_level)) = 3"
    by code_simp
  from 1 2 3 4 5 show ?thesis by blast
qed

text \<open>
  Claim C7 (the code departs from it).  In the level of the layout \<open>["D P"]\<close> the player
  stands inside the killing tile of the \<open>D\<close> cell.  \<open>horizontal_movement_collision\<close>,
  called with the player sprite, leaves the player in its group and prints nothing.
\<close>

theorem player_in_death_box_survives_horizontal_pass:
  "kills (death_tile 0 0) \<and> collides (death_tile 0 0)
   \<and> colliderect (rect (death_tile 0 0)) (rect (advance_x (Player_init example_assets 128 0)))
   \<and> tiles death_level = [death_tile 0 0]
   \<and> player death_level = Some (Player_init example_assets 128 0)
   \<and> player (fst (horizontal_movement_collision death_level (Player_init example_assets 128 0)))
       = Some (Player_init example_assets 128 0)
   \<and> printed (fst (horizontal_movement_collision death_level (Player_init example_assets 128 0))) = []"
  by (simp add: horizontal_movement_collision_def sweep_def tile_step_def collide_tile_def
        enemy_turn_def is_player_group_def advance_x_def clear_flags_def Let_def
        int_of_float_def colliderect_def death_level_def example_defs)












end
